theory Spec2Isabelle
  imports Complex_Main
begin

section \<open>Values\<close>

text \<open>
  The script \<^verbatim>\<open>the_features.py\<close> is a linear Streamlit page: it reads an uploaded CSV
  with pandas, cleans it, lets the user pick a column and hands the resulting series to
  three statsmodels analyzers. pandas, statsmodels, matplotlib and Streamlit are
  libraries outside the repository: their value-level routines are parameters of the
  model (the record \<open>lib\<close> below), each returning either the exception it raises or its
  result. What the script itself does (the order of the calls, which calls stand inside
  a \<^verbatim>\<open>try\<close>, the messages, the threshold, the fixed arguments) is modelled as written.
\<close>

text \<open>An exception, carried with the text that \<^verbatim>\<open>str(e)\<close> gives.\<close>

datatype exn = Exception (message: string)

text \<open>
  A numeric scalar (\<^verbatim>\<open>float64\<close>, or an integer): a finite value, an infinity or NaN.
  Finite values are rationals, which cover every finite double exactly.
\<close>

datatype number = Fin rat | PosInf | NegInf | NaN

text \<open>The comparison \<^verbatim>\<open><\<close> of two floats: false as soon as one side is NaN.\<close>

fun num_less :: "number \<Rightarrow> number \<Rightarrow> bool" where
  "num_less NaN _ = False"
| "num_less _ NaN = False"
| "num_less (Fin a) (Fin b) = (a < b)"
| "num_less _ NegInf = False"
| "num_less NegInf _ = True"
| "num_less PosInf _ = False"
| "num_less (Fin a) PosInf = True"

text \<open>
  The literal \<^verbatim>\<open>0.05\<close> of line 51 denotes the double nearest to one twentieth,
  \<open>3602879701896397 / 2^56\<close>.
\<close>

definition p_threshold :: number where
  "p_threshold = Fin (3602879701896397 / 72057594037927936)"

text \<open>
  A cell of a DataFrame: a string, a number (a missing field is NaN), or a value of the
  nullable integer type \<^verbatim>\<open>Int64\<close>, where \<open>None\<close> is \<^verbatim>\<open><NA>\<close>.
\<close>

datatype cell = Str string | Num number | Int64 "int option"

fun isna :: "cell \<Rightarrow> bool" where
  "isna (Num NaN) = True"
| "isna (Int64 None) = True"
| "isna _ = False"

text \<open>An index label: a position of the default \<^verbatim>\<open>RangeIndex\<close>, or a period with its frequency.\<close>

datatype period = Period int string

datatype label = Position nat | Per period

text \<open>
  A DataFrame, row by row: the column labels, and for each row its index label and its
  cells. A Series of numbers is a list of labelled values.
\<close>

record dataframe =
  columns :: "string list"
  rows :: "(label \<times> cell list) list"

type_synonym series = "(label \<times> number) list"

text \<open>The two components of the tuple of \<^verbatim>\<open>adfuller\<close> that the script reads.\<close>

record adf_result =
  adfstat :: number
  pvalue :: number

record decomposition =
  observed :: series
  trend :: series
  seasonal :: series
  resid :: series

text \<open>
  A matplotlib axes holds what was drawn on it (of a type \<open>'d\<close> left open) and its
  labels; a figure is its size and its axes.
\<close>

record 'd axes =
  artists :: "'d list"
  title :: string
  xlabel :: string
  ylabel :: string

record 'd figure =
  figsize :: "nat \<times> nat"
  sharex :: bool
  tight :: bool
  panels :: "'d axes list"

section \<open>The libraries\<close>

text \<open>
  \<^item> \<open>read_csv\<close>: \<^verbatim>\<open>pd.read_csv\<close> on the uploaded bytes;
  \<^item> \<open>to_numeric\<close>: what \<^verbatim>\<open>pd.to_numeric(..., errors="coerce")\<close> makes of one value
    (NaN where it cannot be parsed);
  \<^item> \<open>cast_int64\<close>: the cast of one number other than NaN done by \<^verbatim>\<open>astype("Int64")\<close>;
  \<^item> \<open>to_period\<close>: the period that \<^verbatim>\<open>pd.PeriodIndex(..., freq=f)\<close> builds from one value;
  \<^item> \<open>series_plot\<close>: \<^verbatim>\<open>Series.plot(ax=ax, title=..., color=...)\<close>;
  \<^item> \<open>adfuller\<close>, \<open>plot_acf\<close>, \<open>plot_pacf\<close>, \<open>seasonal_decompose\<close>: the statsmodels routines.
\<close>

record 'd lib =
  read_csv :: "string \<Rightarrow> exn + dataframe"
  to_numeric :: "cell \<Rightarrow> number"
  cast_int64 :: "number \<Rightarrow> exn + int"
  to_period :: "cell \<Rightarrow> string \<Rightarrow> exn + period"
  series_plot :: "series \<Rightarrow> string option \<Rightarrow> string option \<Rightarrow> 'd axes \<Rightarrow> exn + 'd axes"
  adfuller :: "series \<Rightarrow> string \<Rightarrow> exn + adf_result"
  plot_acf :: "series \<Rightarrow> 'd axes \<Rightarrow> exn + 'd axes"
  plot_pacf :: "series \<Rightarrow> 'd axes \<Rightarrow> exn + 'd axes"
  seasonal_decompose :: "series \<Rightarrow> string \<Rightarrow> nat \<Rightarrow> exn + decomposition"

section \<open>What the page shows\<close>

text \<open>One element per Streamlit call, in the order of the calls.\<close>

datatype 'd element =
    Title string
  | SidebarHeader string
  | FileUploader string "string list"
  | Subheader string
  | WriteFrame dataframe
  | Selectbox string "string list"
  | Pyplot "'d figure"
  | WriteValue string number
  | Success string
  | Warning string
  | Error string
  | Markdown string
  | Info string

text \<open>
  The outcome of one run of the script: the elements rendered, and the exception that
  ended the run if one left the script uncaught.
\<close>

record 'd run =
  rendered :: "'d element list"
  uncaught :: "exn option"

text \<open>The messages of the \<^verbatim>\<open>st.error\<close> boxes among the elements.\<close>

fun reported :: "'d element list \<Rightarrow> string list" where
  "reported [] = []"
| "reported (Error m # es) = m # reported es"
| "reported (_ # es) = reported es"

definition new_axes :: "'d axes" where
  "new_axes = \<lparr>artists = [], title = [], xlabel = [], ylabel = []\<rparr>"

text \<open>\<^verbatim>\<open>plt.subplots(n, 1, figsize=sz, sharex=share)\<close>: a figure of \<open>n\<close> empty axes.\<close>

definition subplots :: "nat \<Rightarrow> nat \<times> nat \<Rightarrow> bool \<Rightarrow> 'd figure" where
  "subplots n sz share =
     \<lparr>figsize = sz, sharex = share, tight = False, panels = replicate n new_axes\<rparr>"

section \<open>DataFrame operations\<close>

text \<open>The cell of a row at a column position; a field absent from a row reads as NaN.\<close>

definition cell_at :: "cell list \<Rightarrow> nat \<Rightarrow> cell" where
  "cell_at r j = (if j < length r then r ! j else Num NaN)"

definition set_cell :: "cell list \<Rightarrow> nat \<Rightarrow> cell \<Rightarrow> cell list" where
  "set_cell r j v =
     (if j < length r then r[j := v]
      else r @ replicate (j - length r) (Num NaN) @ [v])"

text \<open>The positions of the columns that carry a given label.\<close>

definition positions :: "string \<Rightarrow> string list \<Rightarrow> nat list" where
  "positions name cols = filter (\<lambda>j. cols ! j = name) [0..<length cols]"

text \<open>\<^verbatim>\<open>df.head()\<close>: the first five rows.\<close>

definition df_head :: "dataframe \<Rightarrow> dataframe" where
  "df_head df = df\<lparr>rows := take 5 (rows df)\<rparr>"

text \<open>\<^verbatim>\<open>df.rename(columns={old: new}, inplace=True)\<close>.\<close>

definition rename :: "string \<Rightarrow> string \<Rightarrow> dataframe \<Rightarrow> dataframe" where
  "rename old new df =
     df\<lparr>columns := map (\<lambda>c. if c = old then new else c) (columns df)\<rparr>"

text \<open>
  \<^verbatim>\<open>df[name]\<close>: a Series when one column carries the label, a DataFrame when several
  do, a \<^verbatim>\<open>KeyError\<close> when none does.
\<close>

datatype selection = OneColumn "(label \<times> cell) list" | ManyColumns

definition getitem :: "dataframe \<Rightarrow> string \<Rightarrow> exn + selection" where
  "getitem df name =
     (case positions name (columns df) of
        [] \<Rightarrow> Inl (Exception ([CHR 0x27] @ name @ [CHR 0x27]))
      | [j] \<Rightarrow> Inr (OneColumn (map (\<lambda>(l, r). (l, cell_at r j)) (rows df)))
      | _ \<Rightarrow> Inr ManyColumns)"

text \<open>
  \<^verbatim>\<open>pd.to_numeric(arg, errors="coerce")\<close>: value by value on a Series; a DataFrame is
  refused with a \<^verbatim>\<open>TypeError\<close>.
\<close>

definition pd_to_numeric :: "'d lib \<Rightarrow> selection \<Rightarrow> exn + series" where
  "pd_to_numeric L sel =
     (case sel of
        OneColumn xs \<Rightarrow> Inr (map (\<lambda>(l, c). (l, to_numeric L c)) xs)
      | ManyColumns \<Rightarrow> Inl (Exception ''arg must be a list, tuple, 1-d array, or Series''))"

text \<open>A list is converted value by value; the first exception ends the conversion.\<close>

fun traverse :: "('a \<Rightarrow> exn + 'b) \<Rightarrow> 'a list \<Rightarrow> exn + 'b list" where
  "traverse f [] = Inr []"
| "traverse f (x # xs) =
     (case f x of
        Inl e \<Rightarrow> Inl e
      | Inr y \<Rightarrow> (case traverse f xs of Inl e \<Rightarrow> Inl e | Inr ys \<Rightarrow> Inr (y # ys)))"

text \<open>\<^verbatim>\<open>.astype("Int64")\<close>: NaN becomes \<^verbatim>\<open><NA>\<close>, any other number is cast.\<close>

definition astype_value :: "'d lib \<Rightarrow> number \<Rightarrow> exn + int option" where
  "astype_value L x =
     (if x = NaN then Inr None
      else (case cast_int64 L x of Inl e \<Rightarrow> Inl e | Inr n \<Rightarrow> Inr (Some n)))"

definition astype_Int64 :: "'d lib \<Rightarrow> series \<Rightarrow> exn + (label \<times> int option) list" where
  "astype_Int64 L s =
     traverse (\<lambda>(l, x). case astype_value L x of Inl e \<Rightarrow> Inl e | Inr v \<Rightarrow> Inr (l, v)) s"

text \<open>
  \<^verbatim>\<open>df[name] = values\<close>, the values carrying the index of \<open>df\<close>: every column with the
  label is overwritten, and a new column is appended when there is none.
\<close>

definition setitem :: "dataframe \<Rightarrow> string \<Rightarrow> (label \<times> int option) list \<Rightarrow> dataframe" where
  "setitem df name vs =
     (let js = positions name (columns df) in
      if js = []
      then \<lparr>columns = columns df @ [name],
            rows = map (\<lambda>((l, r), (_, v)). (l, set_cell r (length (columns df)) (Int64 v)))
                     (zip (rows df) vs)\<rparr>
      else df\<lparr>rows := map (\<lambda>((l, r), (_, v)). (l, foldr (\<lambda>j r'. set_cell r' j (Int64 v)) js r))
                          (zip (rows df) vs)\<rparr>)"

text \<open>\<^verbatim>\<open>df.dropna(subset=[name], inplace=True)\<close>: a row with a missing value there goes.\<close>

definition dropna :: "string \<Rightarrow> dataframe \<Rightarrow> dataframe" where
  "dropna name df =
     df\<lparr>rows := filter (\<lambda>(l, r). \<not> list_ex (\<lambda>j. isna (cell_at r j)) (positions name (columns df)))
                    (rows df)\<rparr>"

text \<open>\<^verbatim>\<open>pd.PeriodIndex(values, freq=f)\<close>, value by value.\<close>

definition PeriodIndex :: "'d lib \<Rightarrow> selection \<Rightarrow> string \<Rightarrow> exn + period list" where
  "PeriodIndex L sel f =
     (case sel of
        OneColumn xs \<Rightarrow> traverse (\<lambda>(l, c). to_period L c f) xs
      | ManyColumns \<Rightarrow> Inl (Exception ''Data must be 1-dimensional''))"

text \<open>\<^verbatim>\<open>df.set_index(idx, inplace=True)\<close>: the rows take the labels of \<open>idx\<close>, in order.\<close>

definition set_index :: "period list \<Rightarrow> dataframe \<Rightarrow> dataframe" where
  "set_index idx df = df\<lparr>rows := map (\<lambda>((l, r), p). (Per p, r)) (zip (rows df) idx)\<rparr>"

text \<open>\<^verbatim>\<open>df.drop(columns=[name], inplace=True)\<close>: the columns with another label stay.\<close>

definition kept :: "string \<Rightarrow> string list \<Rightarrow> nat list" where
  "kept name cols = filter (\<lambda>j. cols ! j \<noteq> name) [0..<length cols]"

definition drop_columns :: "string \<Rightarrow> dataframe \<Rightarrow> dataframe" where
  "drop_columns name df =
     \<lparr>columns = map (\<lambda>j. columns df ! j) (kept name (columns df)),
      rows = map (\<lambda>(l, r). (l, map (cell_at r) (kept name (columns df)))) (rows df)\<rparr>"

text \<open>\<^verbatim>\<open>Series.dropna()\<close>: the values that are not NaN, with their labels.\<close>

definition series_dropna :: "series \<Rightarrow> series" where
  "series_dropna s = filter (\<lambda>(l, v). v \<noteq> NaN) s"

section \<open>Cleaning (lines 21 to 27)\<close>

definition clean :: "'d lib \<Rightarrow> dataframe \<Rightarrow> exn + dataframe" where
  "clean L df =
     (case columns df of
        [] \<Rightarrow> Inl (Exception ''index 0 is out of bounds for axis 0 with size 0'')
      | c0 # _ \<Rightarrow>
          (let df1 = rename c0 ''YEAR'' df in
           case getitem df1 ''YEAR'' of Inl e \<Rightarrow> Inl e | Inr sel \<Rightarrow>
           (case pd_to_numeric L sel of Inl e \<Rightarrow> Inl e | Inr nums \<Rightarrow>
           (case astype_Int64 L nums of Inl e \<Rightarrow> Inl e | Inr years \<Rightarrow>
           (let df2 = dropna ''YEAR'' (setitem df1 ''YEAR'' years) in
            case getitem df2 ''YEAR'' of Inl e \<Rightarrow> Inl e | Inr sel2 \<Rightarrow>
            (case PeriodIndex L sel2 ''Y'' of Inl e \<Rightarrow> Inl e | Inr idx \<Rightarrow>
               Inr (drop_columns ''YEAR'' (set_index idx df2))))))))"

section \<open>Column selection (lines 30 to 33)\<close>

text \<open>
  \<^verbatim>\<open>st.selectbox\<close> returns one of the options, the one the user chose (the first when the
  choice names none), and \<^verbatim>\<open>None\<close> when there is no option.
\<close>

definition selectbox :: "string list \<Rightarrow> nat \<Rightarrow> string option" where
  "selectbox opts choice =
     (if opts = [] then None
      else Some (opts ! (if choice < length opts then choice else 0)))"

definition select_series :: "'d lib \<Rightarrow> dataframe \<Rightarrow> string option \<Rightarrow> exn + series" where
  "select_series L df col =
     (case col of
        None \<Rightarrow> Inl (Exception ''None'')
      | Some c \<Rightarrow>
          (case getitem df c of Inl e \<Rightarrow> Inl e | Inr sel \<Rightarrow>
           (case pd_to_numeric L sel of Inl e \<Rightarrow> Inl e | Inr s \<Rightarrow> Inr (series_dropna s))))"

section \<open>Series chart (lines 36 to 41)\<close>

text \<open>The en dash of the title, in UTF-8.\<close>

definition en_dash :: string where
  "en_dash = [CHR 0xE2, CHR 0x80, CHR 0x93]"

definition series_chart :: "'d lib \<Rightarrow> string \<Rightarrow> series \<Rightarrow> exn + 'd figure" where
  "series_chart L col s =
     (let fig = subplots 1 (10, 4) False in
      case series_plot L s None None new_axes of
        Inl e \<Rightarrow> Inl e
      | Inr ax \<Rightarrow>
          Inr (fig\<lparr>panels := [ax\<lparr>title := col @ '' (1901'' @ en_dash @ ''2021)'',
                                   xlabel := ''Year'', ylabel := ''Value''\<rparr>]\<rparr>))"

section \<open>Stationarity test (lines 46 to 56)\<close>

definition stationarity :: "'d lib \<Rightarrow> series \<Rightarrow> 'd element list" where
  "stationarity L s =
     Subheader ''Stationarity Test (ADF)'' #
     (case adfuller L s ''AIC'' of
        Inr result \<Rightarrow>
          [WriteValue ''ADF Statistic:'' (adfstat result),
           WriteValue ''p-value:'' (pvalue result),
           if num_less (pvalue result) p_threshold
           then Success ''Series is likely stationary''
           else Warning ''Series is not stationary'']
      | Inl e \<Rightarrow> [Error (''ADF test failed: '' @ message e)])"

section \<open>Autocorrelation plots (lines 61 to 68)\<close>

definition correlation :: "'d lib \<Rightarrow> series \<Rightarrow> 'd element list" where
  "correlation L s =
     Subheader ''Autocorrelation and Partial Autocorrelation'' #
     (let fig = subplots 2 (10, 6) False in
      case plot_acf L s new_axes of
        Inl e \<Rightarrow> [Error (''ACF/PACF plotting failed: '' @ message e)]
      | Inr a0 \<Rightarrow>
          (case plot_pacf L s new_axes of
             Inl e \<Rightarrow> [Error (''ACF/PACF plotting failed: '' @ message e)]
           | Inr a1 \<Rightarrow> [Pyplot (fig\<lparr>panels := [a0, a1]\<rparr>)]))"

section \<open>Decomposition (lines 73 to 95)\<close>

definition explanation :: string where
  "explanation =
     [CHR 0x0A] @ ''        **Explanation:**'' @
     [CHR 0x0A] @ ''        - **Trend:** Long-term movement or direction in the data.'' @
     [CHR 0x0A] @ ''        - **Seasonality:** Regular, repeating pattern (e.g., yearly temperature variation).'' @
     [CHR 0x0A] @ ''        - **Cyclic:** Longer-term fluctuations (captured partly in trend if no fixed period).'' @
     [CHR 0x0A] @ ''        - **Irregular (Residual):** Random noise or unexplained variation.'' @
     [CHR 0x0A] @ ''        ''"

text \<open>The four component plots, top to bottom; the first exception ends them.\<close>

definition component_plots :: "'d lib \<Rightarrow> decomposition \<Rightarrow> exn + 'd axes list" where
  "component_plots L d =
     (case series_plot L (observed d) (Some ''Original Series'') (Some ''blue'') new_axes of
        Inl e \<Rightarrow> Inl e | Inr a0 \<Rightarrow>
     (case series_plot L (trend d) (Some ''Trend'') (Some ''orange'') new_axes of
        Inl e \<Rightarrow> Inl e | Inr a1 \<Rightarrow>
     (case series_plot L (seasonal d) (Some ''Seasonality'') (Some ''green'') new_axes of
        Inl e \<Rightarrow> Inl e | Inr a2 \<Rightarrow>
     (case series_plot L (resid d) (Some ''Irregular (Residuals)'') (Some ''red'') new_axes of
        Inl e \<Rightarrow> Inl e | Inr a3 \<Rightarrow> Inr [a0, a1, a2, a3]))))"

definition decomposition_panel :: "'d lib \<Rightarrow> series \<Rightarrow> 'd element list" where
  "decomposition_panel L s =
     Subheader ''Decomposition of Time Series'' #
     (case seasonal_decompose L s ''additive'' 10 of
        Inl e \<Rightarrow> [Error (''Decomposition failed: '' @ message e)]
      | Inr d \<Rightarrow>
          (let fig = subplots 4 (10, 8) True in
           case component_plots L d of
             Inl e \<Rightarrow> [Error (''Decomposition failed: '' @ message e)]
           | Inr axs \<Rightarrow> [Pyplot (fig\<lparr>panels := axs, tight := True\<rparr>), Markdown explanation]))"

section \<open>The script\<close>

definition analyzers :: "'d lib \<Rightarrow> series \<Rightarrow> 'd element list" where
  "analyzers L s = stationarity L s @ correlation L s @ decomposition_panel L s"

text \<open>The elements rendered before the test on the upload (lines 8 to 11).\<close>

definition preamble :: "'d element list" where
  "preamble =
     [Title ''Time Series Analysis App'', SidebarHeader ''Upload Dataset'',
      FileUploader ''Upload CSV'' [''csv'']]"

text \<open>
  One run of the script, from the uploaded bytes (\<open>None\<close> while nothing is uploaded) and
  the user's choice in the select box. A call outside every \<^verbatim>\<open>try\<close> that raises ends the
  run with what was rendered so far.
\<close>

definition script :: "'d lib \<Rightarrow> string option \<Rightarrow> nat \<Rightarrow> 'd run" where
  "script L file choice =
     (case file of
        None \<Rightarrow>
          \<lparr>rendered = preamble @ [Info ''Please upload a CSV file with YEAR and time series data.''],
           uncaught = None\<rparr>
      | Some bytes \<Rightarrow>
          (case read_csv L bytes of
             Inl e \<Rightarrow> \<lparr>rendered = preamble, uncaught = Some e\<rparr>
           | Inr df \<Rightarrow>
               (let out1 = preamble @ [Subheader ''Raw Data'', WriteFrame (df_head df)] in
                case clean L df of
                  Inl e \<Rightarrow> \<lparr>rendered = out1, uncaught = Some e\<rparr>
                | Inr ydf \<Rightarrow>
                    (let col = selectbox (columns ydf) choice;
                         out2 = out1 @ [Selectbox ''Select column for time series analysis'' (columns ydf)]
                     in
                     case select_series L ydf col of
                       Inl e \<Rightarrow> \<lparr>rendered = out2, uncaught = Some e\<rparr>
                     | Inr s \<Rightarrow>
                         (let out3 = out2 @ [Subheader ''Selected Series''] in
                          case series_chart L (case col of Some c \<Rightarrow> c | None \<Rightarrow> ''None'') s of
                            Inl e \<Rightarrow> \<lparr>rendered = out3, uncaught = Some e\<rparr>
                          | Inr fig \<Rightarrow>
                              \<lparr>rendered = out3 @ [Pyplot fig] @ analyzers L s,
                               uncaught = None\<rparr>)))))"

text \<open>The elements rendered before the series chart, once a series is selected.\<close>

definition page_head :: "dataframe \<Rightarrow> dataframe \<Rightarrow> 'd element list" where
  "page_head df ydf =
     preamble @
     [Subheader ''Raw Data'', WriteFrame (df_head df),
      Selectbox ''Select column for time series analysis'' (columns ydf),
      Subheader ''Selected Series'']"

section \<open>A small instance of the libraries\<close>

text \<open>
  A stand-in for the libraries, small enough to evaluate the script on concrete uploads:
  a CSV reader for comma-separated lines, decimal integers as the only numbers, plots
  that record the series drawn and refuse an empty one, an ADF test that returns a given
  result, and a decomposition that asks for two complete periods.
\<close>

fun split_on :: "char \<Rightarrow> string \<Rightarrow> string list" where
  "split_on c [] = [[]]"
| "split_on c (x # xs) =
     (if x = c then [] # split_on c xs
      else (case split_on c xs of w # ws \<Rightarrow> (x # w) # ws | [] \<Rightarrow> [[x]]))"

definition digit_of :: "char \<Rightarrow> nat option" where
  "digit_of c = (let n = (of_char c :: nat) in if 48 \<le> n \<and> n \<le> 57 then Some (n - 48) else None)"

fun parse_nat :: "nat \<Rightarrow> string \<Rightarrow> nat option" where
  "parse_nat acc [] = Some acc"
| "parse_nat acc (c # cs) =
     (case digit_of c of None \<Rightarrow> None | Some d \<Rightarrow> parse_nat (10 * acc + d) cs)"

definition parse_int :: "string \<Rightarrow> int option" where
  "parse_int s =
     (case s of
        [] \<Rightarrow> None
      | c # cs \<Rightarrow>
          (if c = CHR ''-'' then (if cs = [] then None else map_option (\<lambda>n. - int n) (parse_nat 0 cs))
           else map_option int (parse_nat 0 s)))"

definition demo_field :: "string \<Rightarrow> cell" where
  "demo_field s =
     (if s = [] then Num NaN
      else (case parse_int s of Some n \<Rightarrow> Num (Fin (of_int n)) | None \<Rightarrow> Str s))"

fun demo_records :: "nat \<Rightarrow> nat \<Rightarrow> string list \<Rightarrow> exn + (label \<times> cell list) list" where
  "demo_records n i [] = Inr []"
| "demo_records n i (line # rest) =
     (let fields = split_on CHR '','' line in
      if n < length fields then Inl (Exception ''Error tokenizing data'')
      else (case demo_records n (Suc i) rest of
              Inl e \<Rightarrow> Inl e
            | Inr rs \<Rightarrow>
                Inr ((Position i, map demo_field fields @ replicate (n - length fields) (Num NaN)) # rs)))"

definition demo_read_csv :: "string \<Rightarrow> exn + dataframe" where
  "demo_read_csv bytes =
     (case filter (\<lambda>l. l \<noteq> []) (split_on (CHR 0x0A) bytes) of
        [] \<Rightarrow> Inl (Exception ''No columns to parse from file'')
      | header # rest \<Rightarrow>
          (let cols = split_on CHR '','' header in
           case demo_records (length cols) 0 rest of
             Inl e \<Rightarrow> Inl e
           | Inr rs \<Rightarrow> Inr \<lparr>columns = cols, rows = rs\<rparr>))"

definition demo_to_numeric :: "cell \<Rightarrow> number" where
  "demo_to_numeric c =
     (case c of
        Num x \<Rightarrow> x
      | Str s \<Rightarrow> (case parse_int s of Some n \<Rightarrow> Fin (of_int n) | None \<Rightarrow> NaN)
      | Int64 v \<Rightarrow> (case v of Some n \<Rightarrow> Fin (of_int n) | None \<Rightarrow> NaN))"

definition demo_cast_int64 :: "number \<Rightarrow> exn + int" where
  "demo_cast_int64 x =
     (case x of
        Fin q \<Rightarrow>
          (if q = of_int \<lfloor>q\<rfloor> then Inr \<lfloor>q\<rfloor>
           else Inl (Exception ''cannot safely cast non-equivalent float64 to int64''))
      | _ \<Rightarrow> Inl (Exception ''cannot safely cast non-equivalent float64 to int64''))"

definition demo_to_period :: "cell \<Rightarrow> string \<Rightarrow> exn + period" where
  "demo_to_period c f =
     (case c of
        Int64 (Some y) \<Rightarrow>
          (if 1 \<le> y \<and> y \<le> 9999 then Inr (Period y f) else Inl (Exception ''year is out of range''))
      | _ \<Rightarrow> Inl (Exception ''Value must be Period, string, integer, or datetime''))"

definition demo_series_plot ::
  "series \<Rightarrow> string option \<Rightarrow> string option \<Rightarrow> series axes \<Rightarrow> exn + series axes" where
  "demo_series_plot s t c ax =
     (if s = []
      then Inl (Exception ''zero-size array to reduction operation fmin which has no identity'')
      else Inr (ax\<lparr>artists := artists ax @ [s],
                    title := (case t of Some x \<Rightarrow> x | None \<Rightarrow> title ax)\<rparr>))"

definition demo_adfuller :: "adf_result \<Rightarrow> series \<Rightarrow> string \<Rightarrow> exn + adf_result" where
  "demo_adfuller r s autolag =
     (if length s < 4
      then Inl (Exception ''sample size is too short to use selected regression component'')
      else Inr r)"

definition demo_plot_acf :: "string \<Rightarrow> series \<Rightarrow> series axes \<Rightarrow> exn + series axes" where
  "demo_plot_acf t s ax =
     (if length s < 2 then Inl (Exception ''zero-size array to reduction operation maximum which has no identity'')
      else Inr (ax\<lparr>artists := artists ax @ [s], title := t\<rparr>))"

definition demo_plot_pacf :: "series \<Rightarrow> series axes \<Rightarrow> exn + series axes" where
  "demo_plot_pacf s ax =
     (if length s < 2
      then Inl (Exception ''Can only compute partial correlations for lags up to 50% of the sample size'')
      else Inr (ax\<lparr>artists := artists ax @ [s], title := ''Partial Autocorrelation''\<rparr>))"

definition demo_seasonal_decompose :: "series \<Rightarrow> string \<Rightarrow> nat \<Rightarrow> exn + decomposition" where
  "demo_seasonal_decompose s m period =
     (if length s < 2 * period
      then Inl (Exception ''x must have 2 complete cycles'')
      else Inr \<lparr>observed = s, trend = s,
                seasonal = map (\<lambda>(l, v). (l, Fin 0)) s,
                resid = map (\<lambda>(l, v). (l, Fin 0)) s\<rparr>)"

definition demo_lib :: "adf_result \<Rightarrow> series lib" where
  "demo_lib r =
     \<lparr>read_csv = demo_read_csv, to_numeric = demo_to_numeric, cast_int64 = demo_cast_int64,
      to_period = demo_to_period, series_plot = demo_series_plot, adfuller = demo_adfuller r,
      plot_acf = demo_plot_acf ''Autocorrelation'',
      plot_pacf = demo_plot_pacf,
      seasonal_decompose = demo_seasonal_decompose\<rparr>"

text \<open>
  Four uploads: five years of readings, one with a line too long, one with repeated years,
  and one whose readings are words.
\<close>

definition csv_five :: string where
  "csv_five =
     ''YEAR,TEMP,NOTE'' @ [CHR 0x0A] @ ''1901,10,a'' @ [CHR 0x0A] @ ''1902,x,b'' @ [CHR 0x0A] @
     ''n/a,12,c'' @ [CHR 0x0A] @ ''1904,,d'' @ [CHR 0x0A] @ ''1905,14,e'' @ [CHR 0x0A]"

definition csv_bad :: string where
  "csv_bad = ''YEAR,TEMP'' @ [CHR 0x0A] @ ''1901,10'' @ [CHR 0x0A] @ ''1902,11,12,13'' @ [CHR 0x0A]"

definition csv_text :: string where
  "csv_text = ''YEAR,TEMP'' @ [CHR 0x0A] @ ''1901,low'' @ [CHR 0x0A] @ ''1902,high'' @ [CHR 0x0A]"

definition df_repeated :: dataframe where
  "df_repeated =
     \<lparr>columns = [''YEAR'', ''TEMP''],
      rows = [(Position 0, [Num (Fin 2001), Num (Fin 10)]),
              (Position 1, [Num (Fin 2000), Num (Fin 11)]),
              (Position 2, [Num (Fin 2000), Num (Fin 12)])]\<rparr>"

definition series_four :: series where
  "series_four =
     [(Per (Period 1901 ''Y''), Fin 10), (Per (Period 1902 ''Y''), Fin 12),
      (Per (Period 1903 ''Y''), Fin 11), (Per (Period 1904 ''Y''), Fin 13)]"

text \<open>Two results of the test: a p-value equal to the double 0.05, and one of a hundredth.\<close>

definition demo_result :: adf_result where
  "demo_result = \<lparr>adfstat = Fin (- 3), pvalue = Fin (3602879701896397 / 72057594037927936)\<rparr>"

definition demo_stationary :: adf_result where
  "demo_stationary = \<lparr>adfstat = Fin (- 5), pvalue = Fin (1 / 100)\<rparr>"

text \<open>What the reader and the cleaning make of these uploads.\<close>

definition df_five :: dataframe where
  "df_five =
     \<lparr>columns = [''YEAR'', ''TEMP'', ''NOTE''],
      rows = [(Position 0, [Num (Fin 1901), Num (Fin 10), Str ''a'']),
              (Position 1, [Num (Fin 1902), Str ''x'', Str ''b'']),
              (Position 2, [Str ''n/a'', Num (Fin 12), Str ''c'']),
              (Position 3, [Num (Fin 1904), Num NaN, Str ''d'']),
              (Position 4, [Num (Fin 1905), Num (Fin 14), Str ''e''])]\<rparr>"

definition ydf_five :: dataframe where
  "ydf_five =
     \<lparr>columns = [''TEMP'', ''NOTE''],
      rows = [(Per (Period 1901 ''Y''), [Num (Fin 10), Str ''a'']),
              (Per (Period 1902 ''Y''), [Str ''x'', Str ''b'']),
              (Per (Period 1904 ''Y''), [Num NaN, Str ''d'']),
              (Per (Period 1905 ''Y''), [Num (Fin 14), Str ''e''])]\<rparr>"

definition series_five :: series where
  "series_five = [(Per (Period 1901 ''Y''), Fin 10), (Per (Period 1905 ''Y''), Fin 14)]"

definition ydf_repeated :: dataframe where
  "ydf_repeated =
     \<lparr>columns = [''TEMP''],
      rows = [(Per (Period 2001 ''Y''), [Num (Fin 10)]),
              (Per (Period 2000 ''Y''), [Num (Fin 11)]),
              (Per (Period 2000 ''Y''), [Num (Fin 12)])]\<rparr>"

definition df_text :: dataframe where
  "df_text =
     \<lparr>columns = [''YEAR'', ''TEMP''],
      rows = [(Position 0, [Num (Fin 1901), Str ''low'']),
              (Position 1, [Num (Fin 1902), Str ''high''])]\<rparr>"

definition ydf_text :: dataframe where
  "ydf_text =
     \<lparr>columns = [''TEMP''],
      rows = [(Per (Period 1901 ''Y''), [Str ''low'']),
              (Per (Period 1902 ''Y''), [Str ''high''])]\<rparr>"

section \<open>Properties\<close>

text \<open>
  A row whose first-column value fails the numeric coercion: \<^verbatim>\<open>to_numeric\<close> gives NaN for it
  (which \<^verbatim>\<open>astype("Int64")\<close> turns into \<^verbatim>\<open><NA>\<close>).
\<close>

definition year_fails :: "'d lib \<Rightarrow> label \<times> cell list \<Rightarrow> bool" where
  "year_fails L row = (to_numeric L (cell_at (snd row) 0) = NaN)"

text \<open>
  The index label that lines 22 and 26 build for one row: the cast of its coerced year,
  made a period of frequency \<^verbatim>\<open>"Y"\<close>.
\<close>

definition row_period :: "'d lib \<Rightarrow> label \<times> cell list \<Rightarrow> exn + label" where
  "row_period L row =
     (case cast_int64 L (to_numeric L (cell_at (snd row) 0)) of
        Inl e \<Rightarrow> Inl e
      | Inr y \<Rightarrow> (case to_period L (Int64 (Some y)) ''Y'' of Inl e \<Rightarrow> Inl e | Inr p \<Rightarrow> Inr (Per p)))"

text \<open>
  The invariant that the data model states for the index of the year-indexed table:
  years that are unique and non-decreasing, each an annual period.
\<close>

fun label_year :: "label \<Rightarrow> int" where
  "label_year (Per (Period y f)) = y"
| "label_year (Position n) = int n"

fun annual :: "label \<Rightarrow> bool" where
  "annual (Per (Period y f)) = (f = ''Y'')"
| "annual (Position n) = False"

definition year_index_invariant :: "label list \<Rightarrow> bool" where
  "year_index_invariant ix =
     (distinct (map label_year ix) \<and> sorted (map label_year ix) \<and> list_all annual ix)"

text \<open>
  The contract of \<^verbatim>\<open>seasonal_decompose\<close> that the decomposition panel relies on: a series
  shorter than two periods is rejected.
\<close>

definition two_cycles :: "'d lib \<Rightarrow> bool" where
  "two_cycles L =
     (\<forall>s m p. length s < 2 * p \<longrightarrow> (\<exists>e. seasonal_decompose L s m p = Inl e))"

section \<open>Lemmas on the cleaning\<close>

lemma traverse_Inr:
  "traverse f xs = Inr ys \<Longrightarrow> list_all2 (\<lambda>x y. f x = Inr y) xs ys"
  by (induction xs arbitrary: ys) (auto split: sum.splits)

lemma cell_at_set_cell_same: "cell_at (set_cell r j v) j = v"
  by (auto simp: cell_at_def set_cell_def nth_append)

lemma cell_at_set_cell_other: "i \<noteq> j \<Longrightarrow> cell_at (set_cell r j v) i = cell_at r i"
  by (auto simp: cell_at_def set_cell_def nth_append)

lemma positions_Cons_same:
  "positions name (name # cs) = 0 # map Suc (positions name cs)"
proof -
  have "[0..<length (name # cs)] = 0 # map Suc [0..<length cs]"
    by (simp add: upt_conv_Cons map_Suc_upt del: upt_Suc)
  then show ?thesis
    by (simp add: positions_def filter_map comp_def del: upt_Suc)
qed

lemma positions_single_head:
  assumes "positions name (name # cs) = [j]"
  shows "j = 0" and "positions name cs = []"
  using assms by (simp_all add: positions_Cons_same)

lemma kept_Cons_same:
  assumes "positions name cs = []"
  shows "kept name (name # cs) = [1..<Suc (length cs)]"
proof -
  have a: "[0..<length (name # cs)] = 0 # map Suc [0..<length cs]"
    by (simp add: upt_conv_Cons map_Suc_upt del: upt_Suc)
  have "\<forall>j \<in> set [0..<length cs]. cs ! j \<noteq> name"
    using assms by (auto simp: positions_def filter_empty_conv)
  then have "filter (\<lambda>j. cs ! j \<noteq> name) [0..<length cs] = [0..<length cs]"
    by (simp del: upt_Suc)
  then have "filter (\<lambda>j. (name # cs) ! j \<noteq> name) (map Suc [0..<length cs]) = map Suc [0..<length cs]"
    by (simp add: filter_map comp_def del: upt_Suc)
  then have "kept name (name # cs) = map Suc [0..<length cs]"
    unfolding kept_def a by simp
  then show ?thesis
    by (simp add: map_Suc_upt del: upt_Suc)
qed

lemma astype_value_Inr:
  "astype_value L x = Inr v \<Longrightarrow>
     (x = NaN \<and> v = None) \<or> (x \<noteq> NaN \<and> (\<exists>y. cast_int64 L x = Inr y \<and> v = Some y))"
  by (auto simp: astype_value_def split: if_splits sum.splits)

lemma clean_rows_aux:
  assumes "list_all2 (\<lambda>row lv. astype_value L (to_numeric L (cell_at (snd row) 0)) = Inr (snd lv)) R years"
    and "list_all2 (\<lambda>row p. to_period L (cell_at (snd row) 0) ''Y'' = Inr p)
           (filter (\<lambda>(l, r). \<not> isna (cell_at r 0))
              (map (\<lambda>((l, r), (_, v)). (l, set_cell r 0 (Int64 v))) (zip R years))) idx"
    and "\<forall>j \<in> set K. j \<noteq> 0"
  shows "list_all2 (\<lambda>row row'. row_period L row = Inr (fst row') \<and> snd row' = map (cell_at (snd row)) K)
           (filter (\<lambda>row. \<not> year_fails L row) R)
           (map (\<lambda>(l, r). (l, map (cell_at r) K))
              (map (\<lambda>((l, r), p). (Per p, r))
                 (zip (filter (\<lambda>(l, r). \<not> isna (cell_at r 0))
                         (map (\<lambda>((l, r), (_, v)). (l, set_cell r 0 (Int64 v))) (zip R years))) idx)))"
  using assms(1,2)
proof (induction R arbitrary: years idx)
  case Nil
  then show ?case by simp
next
  case (Cons row R)
  obtain l r where row: "row = (l, r)" by (cases row)
  from Cons.prems(1) obtain lv years' where years: "years = lv # years'"
    and a: "astype_value L (to_numeric L (cell_at r 0)) = Inr (snd lv)"
    and rest: "list_all2 (\<lambda>row lv. astype_value L (to_numeric L (cell_at (snd row) 0)) = Inr (snd lv)) R years'"
    by (auto simp: list_all2_Cons1 row)
  obtain l' v where lv: "lv = (l', v)" by (cases lv)
  let ?x = "to_numeric L (cell_at r 0)"
  from a lv consider (dropped) "?x = NaN" "v = None"
    | (stays) y where "?x \<noteq> NaN" "cast_int64 L ?x = Inr y" "v = Some y"
    using astype_value_Inr[of L ?x v] by auto
  then show ?case
  proof cases
    case dropped
    with Cons.prems(2) Cons.IH[OF rest] show ?thesis
      by (simp add: years row lv cell_at_set_cell_same year_fails_def)
  next
    case stays
    from Cons.prems(2) obtain p idx' where idx: "idx = p # idx'"
      and p: "to_period L (Int64 (Some y)) ''Y'' = Inr p"
      and rest2: "list_all2 (\<lambda>row p. to_period L (cell_at (snd row) 0) ''Y'' = Inr p)
           (filter (\<lambda>(l, r). \<not> isna (cell_at r 0))
              (map (\<lambda>((l, r), (_, v)). (l, set_cell r 0 (Int64 v))) (zip R years'))) idx'"
      by (auto simp: years row lv stays cell_at_set_cell_same list_all2_Cons1)
    have cells: "map (cell_at (set_cell r 0 (Int64 (Some y)))) K = map (cell_at r) K"
      using assms(3) by (auto simp: cell_at_set_cell_other)
    from Cons.IH[OF rest rest2] stays p cells show ?thesis
      by (simp add: years row lv idx cell_at_set_cell_same year_fails_def row_period_def)
  qed
qed

lemma getitem_numeric_Inr:
  assumes "getitem df name = Inr sel" and "pd_to_numeric L sel = Inr nums"
  obtains j where "positions name (columns df) = [j]"
    and "sel = OneColumn (map (\<lambda>(l, r). (l, cell_at r j)) (rows df))"
    and "nums = map (\<lambda>(l, r). (l, to_numeric L (cell_at r j))) (rows df)"
  using assms
  by (auto simp: getitem_def pd_to_numeric_def comp_def case_prod_unfold
           split: list.splits selection.splits)

lemma clean_Inr:
  assumes "clean L df = Inr ydf"
  obtains c0 cs years idx where
    "columns df = c0 # cs"
    "positions ''YEAR'' (map (\<lambda>c. if c = c0 then ''YEAR'' else c) cs) = []"
    "astype_Int64 L (map (\<lambda>(l, r). (l, to_numeric L (cell_at r 0))) (rows df)) = Inr years"
    "PeriodIndex L (OneColumn (map (\<lambda>(l, r). (l, cell_at r 0))
        (filter (\<lambda>(l, r). \<not> isna (cell_at r 0))
           (map (\<lambda>((l, r), (_, v)). (l, set_cell r 0 (Int64 v))) (zip (rows df) years))))) ''Y'' = Inr idx"
    "ydf = drop_columns ''YEAR'' (set_index idx
        \<lparr>columns = ''YEAR'' # map (\<lambda>c. if c = c0 then ''YEAR'' else c) cs,
         rows = filter (\<lambda>(l, r). \<not> isna (cell_at r 0))
           (map (\<lambda>((l, r), (_, v)). (l, set_cell r 0 (Int64 v))) (zip (rows df) years))\<rparr>)"
proof -
  from assms obtain c0 cs where cols: "columns df = c0 # cs"
    by (cases "columns df") (auto simp: clean_def)
  let ?cs' = "map (\<lambda>c. if c = c0 then ''YEAR'' else c) cs"
  let ?df1 = "rename c0 ''YEAR'' df"
  have cols1: "columns ?df1 = ''YEAR'' # ?cs'" and rows1: "rows ?df1 = rows df"
    by (simp_all add: rename_def cols)
  from assms cols obtain sel nums years where
    g1: "getitem ?df1 ''YEAR'' = Inr sel" and n1: "pd_to_numeric L sel = Inr nums"
    and a1: "astype_Int64 L nums = Inr years"
    by (auto simp: clean_def Let_def split: sum.splits)
  from g1 n1 obtain j where pos: "positions ''YEAR'' (columns ?df1) = [j]"
    and nums: "nums = map (\<lambda>(l, r). (l, to_numeric L (cell_at r j))) (rows ?df1)"
    by (rule getitem_numeric_Inr)
  from pos have j: "j = 0" and none: "positions ''YEAR'' ?cs' = []"
    unfolding cols1 by (rule positions_single_head)+
  let ?df2 = "dropna ''YEAR'' (setitem ?df1 ''YEAR'' years)"
  have df2: "?df2 = \<lparr>columns = ''YEAR'' # ?cs',
         rows = filter (\<lambda>(l, r). \<not> isna (cell_at r 0))
           (map (\<lambda>((l, r), (_, v)). (l, set_cell r 0 (Int64 v))) (zip (rows df) years))\<rparr>"
    using pos cols1 rows1 by (simp add: dropna_def setitem_def j Let_def)
  have g2: "getitem ?df2 ''YEAR'' = Inr (OneColumn (map (\<lambda>(l, r). (l, cell_at r 0)) (rows ?df2)))"
    using pos cols1 unfolding df2 by (simp add: getitem_def j)
  from assms cols g1 n1 a1 g2 obtain idx where
    p: "PeriodIndex L (OneColumn (map (\<lambda>(l, r). (l, cell_at r 0)) (rows ?df2))) ''Y'' = Inr idx"
    and y: "ydf = drop_columns ''YEAR'' (set_index idx ?df2)"
    by (auto simp: clean_def Let_def split: sum.splits)
  show thesis
    by (rule that[OF cols none]) (use a1 nums rows1 j p y df2 in simp_all)
qed

lemma astype_Int64_Inr:
  assumes "astype_Int64 L s = Inr years"
  shows "list_all2 (\<lambda>lx lv. astype_value L (snd lx) = Inr (snd lv)) s years"
proof -
  have "list_all2 (\<lambda>lx lv. (case lx of (l, x) \<Rightarrow>
          case astype_value L x of Inl e \<Rightarrow> Inl e | Inr v \<Rightarrow> Inr (l, v)) = Inr lv) s years"
    using assms unfolding astype_Int64_def by (rule traverse_Inr)
  then show ?thesis
    by (rule list_all2_mono) (auto split: sum.splits)
qed

lemma clean_rows:
  assumes "clean L df = Inr ydf"
  shows "list_all2
           (\<lambda>row row'. row_period L row = Inr (fst row') \<and>
                       snd row' = map (cell_at (snd row)) [1..<length (columns df)])
           (filter (\<lambda>row. \<not> year_fails L row) (rows df)) (rows ydf)"
proof -
  from assms obtain c0 cs years idx where
    cols: "columns df = c0 # cs"
    and none: "positions ''YEAR'' (map (\<lambda>c. if c = c0 then ''YEAR'' else c) cs) = []"
    and a: "astype_Int64 L (map (\<lambda>(l, r). (l, to_numeric L (cell_at r 0))) (rows df)) = Inr years"
    and p: "PeriodIndex L (OneColumn (map (\<lambda>(l, r). (l, cell_at r 0))
        (filter (\<lambda>(l, r). \<not> isna (cell_at r 0))
           (map (\<lambda>((l, r), (_, v)). (l, set_cell r 0 (Int64 v))) (zip (rows df) years))))) ''Y'' = Inr idx"
    and y: "ydf = drop_columns ''YEAR'' (set_index idx
        \<lparr>columns = ''YEAR'' # map (\<lambda>c. if c = c0 then ''YEAR'' else c) cs,
         rows = filter (\<lambda>(l, r). \<not> isna (cell_at r 0))
           (map (\<lambda>((l, r), (_, v)). (l, set_cell r 0 (Int64 v))) (zip (rows df) years))\<rparr>)"
    by (rule clean_Inr)
  let ?rows3 = "filter (\<lambda>(l, r). \<not> isna (cell_at r 0))
           (map (\<lambda>((l, r), (_, v)). (l, set_cell r 0 (Int64 v))) (zip (rows df) years))"
  have k: "kept ''YEAR'' (''YEAR'' # map (\<lambda>c. if c = c0 then ''YEAR'' else c) cs) = [1..<length (columns df)]"
    using kept_Cons_same[OF none] by (simp add: cols)
  have 1: "list_all2 (\<lambda>row lv. astype_value L (to_numeric L (cell_at (snd row) 0)) = Inr (snd lv)) (rows df) years"
    using astype_Int64_Inr[OF a] by (simp add: list_all2_map1 case_prod_unfold)
  have "list_all2 (\<lambda>lc p. (case lc of (l, c) \<Rightarrow> to_period L c ''Y'') = Inr p)
          (map (\<lambda>(l, r). (l, cell_at r 0)) ?rows3) idx"
    using p unfolding PeriodIndex_def by (simp add: traverse_Inr)
  then have 2: "list_all2 (\<lambda>row p. to_period L (cell_at (snd row) 0) ''Y'' = Inr p) ?rows3 idx"
    by (simp add: list_all2_map1 case_prod_unfold)
  have 3: "\<forall>j \<in> set [1..<length (columns df)]. j \<noteq> 0"
    by auto
  have "rows ydf = map (\<lambda>(l, r). (l, map (cell_at r) [1..<length (columns df)]))
              (map (\<lambda>((l, r), p). (Per p, r)) (zip ?rows3 idx))"
    unfolding y by (simp add: drop_columns_def set_index_def k del: upt_Suc)
  with clean_rows_aux[OF 1 2 3] show ?thesis
    by simp
qed

lemma positions_empty: "positions name cols = [] \<longleftrightarrow> name \<notin> set cols"
  by (auto simp: positions_def filter_empty_conv in_set_conv_nth)

lemma nth_tail_upt: "map (\<lambda>j. (x # xs) ! j) [1..<Suc (length xs)] = xs"
proof -
  have "[1..<Suc (length xs)] = map Suc [0..<length xs]"
    by (simp add: map_Suc_upt del: upt_Suc)
  then have "map (\<lambda>j. (x # xs) ! j) [1..<Suc (length xs)] = map (\<lambda>j. xs ! j) [0..<length xs]"
    by (simp add: comp_def del: upt_Suc)
  then show ?thesis
    by (simp add: map_nth del: upt_Suc)
qed

lemma rename_no_target:
  "new \<notin> set (map (\<lambda>c. if c = old then new else c) cs) \<Longrightarrow>
     map (\<lambda>c. if c = old then new else c) cs = cs"
  by (induction cs) (auto split: if_splits)

lemma clean_columns:
  assumes "clean L df = Inr ydf"
  shows "columns ydf = tl (columns df)"
proof -
  from assms obtain c0 cs years idx where
    cols: "columns df = c0 # cs"
    and none: "positions ''YEAR'' (map (\<lambda>c. if c = c0 then ''YEAR'' else c) cs) = []"
    and "astype_Int64 L (map (\<lambda>(l, r). (l, to_numeric L (cell_at r 0))) (rows df)) = Inr years"
    and "PeriodIndex L (OneColumn (map (\<lambda>(l, r). (l, cell_at r 0))
        (filter (\<lambda>(l, r). \<not> isna (cell_at r 0))
           (map (\<lambda>((l, r), (_, v)). (l, set_cell r 0 (Int64 v))) (zip (rows df) years))))) ''Y'' = Inr idx"
    and y: "ydf = drop_columns ''YEAR'' (set_index idx
        \<lparr>columns = ''YEAR'' # map (\<lambda>c. if c = c0 then ''YEAR'' else c) cs,
         rows = filter (\<lambda>(l, r). \<not> isna (cell_at r 0))
           (map (\<lambda>((l, r), (_, v)). (l, set_cell r 0 (Int64 v))) (zip (rows df) years))\<rparr>)"
    by (rule clean_Inr)
  let ?cs' = "map (\<lambda>c. if c = c0 then ''YEAR'' else c) cs"
  have k: "kept ''YEAR'' (''YEAR'' # ?cs') = [1..<Suc (length ?cs')]"
    using kept_Cons_same[OF none] by simp
  have "''YEAR'' \<notin> set ?cs'"
    using none unfolding positions_empty .
  then have same: "?cs' = cs"
    by (rule rename_no_target)
  have "columns ydf = map (\<lambda>j. (''YEAR'' # ?cs') ! j) [1..<Suc (length ?cs')]"
    unfolding y by (simp only: drop_columns_def set_index_def k dataframe.simps)
  also have "\<dots> = ?cs'"
    by (rule nth_tail_upt)
  finally show ?thesis
    unfolding same cols by simp
qed


lemma list_all2_map_eq:
  "list_all2 (\<lambda>x y. f y = g x) xs ys \<Longrightarrow> map f ys = map g xs"
  by (induction rule: list_all2_induct) auto

lemma demo_fields [simp]:
  "read_csv (demo_lib r) = demo_read_csv"
  "to_numeric (demo_lib r) = demo_to_numeric"
  "cast_int64 (demo_lib r) = demo_cast_int64"
  "to_period (demo_lib r) = demo_to_period"
  "series_plot (demo_lib r) = demo_series_plot"
  "adfuller (demo_lib r) = demo_adfuller r"
  "plot_acf (demo_lib r) = demo_plot_acf ''Autocorrelation''"
  "plot_pacf (demo_lib r) = demo_plot_pacf"
  "seasonal_decompose (demo_lib r) = demo_seasonal_decompose"
  by (simp_all add: demo_lib_def)

lemma demo_read_bad: "demo_read_csv csv_bad = Inl (Exception ''Error tokenizing data'')"
  by code_simp

lemma demo_read_five: "demo_read_csv csv_five = Inr df_five"
  by code_simp

lemma demo_clean_five: "clean (demo_lib demo_result) df_five = Inr ydf_five"
  by code_simp

lemma demo_select_five: "select_series (demo_lib demo_result) ydf_five (Some ''TEMP'') = Inr series_five"
  by code_simp

lemma script_completes:
  assumes "read_csv L bytes = Inr df" and "clean L df = Inr ydf"
    and "selectbox (columns ydf) choice = Some col"
    and "select_series L ydf (Some col) = Inr s"
    and "series_chart L col s = Inr fig"
  shows "script L (Some bytes) choice =
           \<lparr>rendered = page_head df ydf @ [Pyplot fig] @ analyzers L s, uncaught = None\<rparr>"
  using assms by (simp add: script_def page_head_def Let_def)

lemma demo_select_note: "select_series (demo_lib demo_result) ydf_five (Some ''NOTE'') = Inr []"
  by code_simp

lemma demo_selectbox_five:
  "selectbox (columns ydf_five) 0 = Some ''TEMP''" "selectbox (columns ydf_five) 1 = Some ''NOTE''"
  by code_simp+

lemma demo_two_cycles: "two_cycles (demo_lib r)"
  by (simp add: two_cycles_def demo_seasonal_decompose_def)

lemma demo_reach_five:
  "read_csv (demo_lib demo_result) csv_five = Inr df_five"
  "clean (demo_lib demo_result) df_five = Inr ydf_five"
  by (simp_all add: demo_read_five demo_clean_five)

lemma demo_chart:
  "s \<noteq> [] \<Longrightarrow> series_chart (demo_lib r) col s =
     Inr ((subplots 1 (10, 4) False)\<lparr>panels :=
       [\<lparr>artists = [s], title = col @ '' (1901'' @ en_dash @ ''2021)'',
         xlabel = ''Year'', ylabel = ''Value''\<rparr>]\<rparr>)"
  by (simp add: series_chart_def demo_series_plot_def new_axes_def)

lemma series_five_nonempty: "series_five \<noteq> []"
  by (simp add: series_five_def)

lemma demo_reach_text:
  "read_csv (demo_lib demo_result) csv_text = Inr df_text"
  "clean (demo_lib demo_result) df_text = Inr ydf_text"
  "selectbox (columns ydf_text) 0 = Some ''TEMP''"
  "select_series (demo_lib demo_result) ydf_text (Some ''TEMP'') = Inr []"
  by code_simp+

lemma script_chart_fails:
  assumes "read_csv L bytes = Inr df" and "clean L df = Inr ydf"
    and "selectbox (columns ydf) choice = Some col"
    and "select_series L ydf (Some col) = Inr s"
    and "series_plot L s None None new_axes = Inl e"
  shows "script L (Some bytes) choice = \<lparr>rendered = page_head df ydf, uncaught = Some e\<rparr>"
  using assms by (simp add: script_def page_head_def series_chart_def Let_def)

lemma script_chart_drawn:
  assumes "read_csv L bytes = Inr df" and "clean L df = Inr ydf"
    and "selectbox (columns ydf) choice = Some col"
    and "select_series L ydf (Some col) = Inr s"
    and "series_plot L s None None new_axes = Inr ax"
  shows "script L (Some bytes) choice =
      \<lparr>rendered = page_head df ydf @
         [Pyplot \<lparr>figsize = (10, 4), sharex = False, tight = False,
                  panels = [ax\<lparr>title := col @ '' (1901'' @ en_dash @ ''2021)'',
                               xlabel := ''Year'', ylabel := ''Value''\<rparr>]\<rparr>] @
         stationarity L s @ correlation L s @ decomposition_panel L s,
       uncaught = None\<rparr>"
  using assms
  by (simp add: script_def page_head_def series_chart_def subplots_def analyzers_def Let_def)

lemma demo_plot_empty:
  "series_plot (demo_lib r) [] None None new_axes =
     Inl (Exception ''zero-size array to reduction operation fmin which has no identity'')"
  by (simp add: demo_series_plot_def)

lemma demo_plot_five:
  "series_plot (demo_lib r) series_five None None new_axes =
     Inr \<lparr>artists = [series_five], title = [], xlabel = [], ylabel = []\<rparr>"
  by (simp add: demo_series_plot_def new_axes_def series_five_def)

section \<open>Ingestion\<close>

text \<open>
  Claim C1, as the code has it: \<^verbatim>\<open>pd.read_csv\<close> (line 15) stands outside every \<^verbatim>\<open>try\<close>.
  When it raises on the uploaded bytes, the exception leaves the script uncaught: the run
  ends there, with the title, the sidebar header and the uploader rendered and no
  \<^verbatim>\<open>st.error\<close> message of the script's own; nothing is retried.
\<close>

theorem C1_uncaught:
  assumes "read_csv L bytes = Inl e"
  shows "script L (Some bytes) choice = \<lparr>rendered = preamble, uncaught = Some e\<rparr>
         \<and> reported (rendered (script L (Some bytes) choice)) = []"
  using assms by (simp add: script_def preamble_def)

text \<open>The run on an upload with a line of four fields under a header of two.\<close>

theorem C1_counterexample:
  "uncaught (script (demo_lib demo_result) (Some csv_bad) 0) = Some (Exception ''Error tokenizing data'')
   \<and> reported (rendered (script (demo_lib demo_result) (Some csv_bad) 0)) = []"
  by (simp add: script_def preamble_def demo_read_bad)

theorem C1_witness:
  "read_csv (demo_lib demo_result) csv_bad = Inl (Exception ''Error tokenizing data'')
   \<and> script (demo_lib demo_result) (Some csv_bad) 0 =
       \<lparr>rendered = preamble, uncaught = Some (Exception ''Error tokenizing data'')\<rparr>"
proof -
  have a: "read_csv (demo_lib demo_result) csv_bad = Inl (Exception ''Error tokenizing data'')"
    by (simp add: demo_read_bad)
  from C1_uncaught[OF a, of 0] a show ?thesis
    by blast
qed

section \<open>Year-indexed table\<close>

text \<open>
  Claim C3: when the cleaning of lines 21 to 27 yields a year-indexed table, it has as
  many rows as the raw table minus the rows whose first-column value fails the numeric
  coercion; and its rows are, in order, the raw rows that do not fail, each with all its
  other cells: a row goes whole or stays whole.
\<close>

theorem C3_year_rows:
  assumes "clean L df = Inr ydf"
  shows "length (rows ydf) = length (rows df) - length (filter (year_fails L) (rows df))
         \<and> map snd (rows ydf) =
             map (\<lambda>row. map (cell_at (snd row)) [1..<length (columns df)])
               (filter (\<lambda>row. \<not> year_fails L row) (rows df))"
proof -
  let ?kept = "filter (\<lambda>row. \<not> year_fails L row) (rows df)"
  have all2: "list_all2
           (\<lambda>row row'. row_period L row = Inr (fst row') \<and>
                       snd row' = map (cell_at (snd row)) [1..<length (columns df)])
           ?kept (rows ydf)"
    using assms by (rule clean_rows)
  then have "length (rows ydf) = length ?kept"
    by (simp add: list_all2_lengthD)
  moreover have "length ?kept + length (filter (year_fails L) (rows df)) = length (rows df)"
    using sum_length_filter_compl[of "year_fails L" "rows df"] by simp
  ultimately have n: "length (rows ydf) = length (rows df) - length (filter (year_fails L) (rows df))"
    by simp
  from all2 have "list_all2 (\<lambda>row row'. snd row' = map (cell_at (snd row)) [1..<length (columns df)])
           ?kept (rows ydf)"
    by (rule list_all2_mono) simp
  then have "map snd (rows ydf) = map (\<lambda>row. map (cell_at (snd row)) [1..<length (columns df)]) ?kept"
    by (rule list_all2_map_eq)
  with n show ?thesis
    by simp
qed

text \<open>The upload of five rows, one with the year \<^verbatim>\<open>n/a\<close>: four rows stay.\<close>

theorem C3_witness:
  "clean (demo_lib demo_result) df_five = Inr ydf_five
   \<and> length (rows ydf_five) =
       length (rows df_five) - length (filter (year_fails (demo_lib demo_result)) (rows df_five))
   \<and> length (rows ydf_five) = 4 \<and> length (rows df_five) = 5"
proof -
  have a: "clean (demo_lib demo_result) df_five = Inr ydf_five"
    by (rule demo_clean_five)
  have b: "length (rows ydf_five) = 4" "length (rows df_five) = 5"
    by (simp_all add: ydf_five_def df_five_def)
  from C3_year_rows[OF a] a b show ?thesis
    by blast
qed

text \<open>
  Claim C4, as the code has it: the index of the year-indexed table is, in file order,
  one period of frequency \<^verbatim>\<open>"Y"\<close> per surviving row, built from that row's coerced year. The
  script neither sorts nor deduplicates it.
\<close>

theorem C4_index_in_file_order:
  assumes "clean L df = Inr ydf"
  shows "map (\<lambda>row'. Inr (fst row')) (rows ydf) =
           map (row_period L) (filter (\<lambda>row. \<not> year_fails L row) (rows df))"
proof -
  have "list_all2
           (\<lambda>row row'. row_period L row = Inr (fst row') \<and>
                       snd row' = map (cell_at (snd row)) [1..<length (columns df)])
           (filter (\<lambda>row. \<not> year_fails L row) (rows df)) (rows ydf)"
    using assms by (rule clean_rows)
  then have "list_all2 (\<lambda>row row'. Inr (fst row') = row_period L row)
           (filter (\<lambda>row. \<not> year_fails L row) (rows df)) (rows ydf)"
    by (rule list_all2_mono) simp
  then show ?thesis
    by (rule list_all2_map_eq)
qed

text \<open>
  The claim as stated fails on a table whose years are 2001, 2000, 2000: the index keeps
  the order and the repetition.
\<close>

theorem C4_counterexample:
  "clean (demo_lib demo_result) df_repeated = Inr ydf_repeated
   \<and> \<not> year_index_invariant (map fst (rows ydf_repeated))"
  by code_simp

theorem C4_witness:
  "clean (demo_lib demo_result) df_five = Inr ydf_five
   \<and> map (\<lambda>row'. Inr (fst row')) (rows ydf_five) =
       map (row_period (demo_lib demo_result))
         (filter (\<lambda>row. \<not> year_fails (demo_lib demo_result) row) (rows df_five))"
proof -
  have a: "clean (demo_lib demo_result) df_five = Inr ydf_five"
    by (rule demo_clean_five)
  from C4_index_in_file_order[OF a] a show ?thesis
    by blast
qed

section \<open>Selected series\<close>

text \<open>
  Claim C5: every value of the selected series is a number other than NaN, and the series
  is exactly the rows of the selected column whose coerced value is not NaN: a row whose
  value is missing or not numeric does not survive.
\<close>

theorem C5_selected_values_numeric:
  assumes "select_series L ydf col = Inr s"
  shows "list_all (\<lambda>(l, v). v \<noteq> NaN) s
         \<and> (\<exists>c j. col = Some c \<and> positions c (columns ydf) = [j]
              \<and> s = filter (\<lambda>(l, v). v \<noteq> NaN)
                      (map (\<lambda>(l, r). (l, to_numeric L (cell_at r j))) (rows ydf)))"
proof -
  from assms obtain c sel nums where col: "col = Some c"
    and g: "getitem ydf c = Inr sel" and n: "pd_to_numeric L sel = Inr nums"
    and s: "s = series_dropna nums"
    by (auto simp: select_series_def split: option.splits sum.splits)
  from g n obtain j where "positions c (columns ydf) = [j]"
    and "nums = map (\<lambda>(l, r). (l, to_numeric L (cell_at r j))) (rows ydf)"
    by (rule getitem_numeric_Inr)
  with col s show ?thesis
    by (auto simp: series_dropna_def list_all_iff)
qed

theorem C5_witness:
  "select_series (demo_lib demo_result) ydf_five (Some ''TEMP'') = Inr series_five
   \<and> list_all (\<lambda>(l, v). v \<noteq> NaN) series_five"
proof -
  have a: "select_series (demo_lib demo_result) ydf_five (Some ''TEMP'') = Inr series_five"
    by (rule demo_select_five)
  from C5_selected_values_numeric[OF a] a show ?thesis
    by blast
qed

section \<open>Series chart\<close>

text \<open>
  Claim C10: whenever the series chart is rendered, its title is the selected column name
  followed by \<^verbatim>\<open> (1901-2021)\<close> (with an en dash), whatever the selected series and so
  whatever years the data holds; the chart is the element that follows the subheader
  "Selected Series".
\<close>

theorem C10_chart_title:
  assumes "read_csv L bytes = Inr df" and "clean L df = Inr ydf"
    and "selectbox (columns ydf) choice = Some col"
    and "select_series L ydf (Some col) = Inr s"
    and "series_chart L col s = Inr fig"
  shows "rendered (script L (Some bytes) choice) = page_head df ydf @ [Pyplot fig] @ analyzers L s
    \<and> map title (panels fig) = [col @ '' (1901'' @ en_dash @ ''2021)'']"
proof -
  have "script L (Some bytes) choice =
      \<lparr>rendered = page_head df ydf @ [Pyplot fig] @ analyzers L s, uncaught = None\<rparr>"
    using assms by (rule script_completes)
  moreover have "map title (panels fig) = [col @ '' (1901'' @ en_dash @ ''2021)'']"
    using assms(5) by (auto simp: series_chart_def Let_def split: sum.splits)
  ultimately show ?thesis
    by simp
qed

text \<open>The upload of five rows holds the years 1901 to 1905; the title still reads 1901 to 2021.\<close>

theorem C10_witness:
  "map fst series_five = [Per (Period 1901 ''Y''), Per (Period 1905 ''Y'')]
   \<and> rendered (script (demo_lib demo_result) (Some csv_five) 0) =
       page_head df_five ydf_five @
       [Pyplot ((subplots 1 (10, 4) False)\<lparr>panels :=
          [\<lparr>artists = [series_five], title = ''TEMP (1901'' @ [CHR 0xE2, CHR 0x80, CHR 0x93] @ ''2021)'',
            xlabel = ''Year'', ylabel = ''Value''\<rparr>]\<rparr>)] @
       analyzers (demo_lib demo_result) series_five"
proof -
  have a: "map fst series_five = [Per (Period 1901 ''Y''), Per (Period 1905 ''Y'')]"
    by (simp add: series_five_def)
  from C10_chart_title[OF demo_reach_five demo_selectbox_five(1) demo_select_five
      demo_chart[OF series_five_nonempty]] a
  show ?thesis
    by (simp add: en_dash_def)
qed


section \<open>Stationarity verdict\<close>

text \<open>
  Claim C2. Whenever the ADF test returns a result, the page shows the statistic, the
  p-value and exactly one verdict: \<^verbatim>\<open>Series is likely stationary\<close> when the p-value is
  below the double written \<^verbatim>\<open>0.05\<close>, which is \<^verbatim>\<open>3602879701896397 / 2^56\<close>, and
  \<^verbatim>\<open>Series is not stationary\<close> otherwise. A p-value equal to that double, a NaN and
  \<^verbatim>\<open>+inf\<close> are labelled non-stationary; \<^verbatim>\<open>-inf\<close> is labelled stationary.
\<close>

theorem C2_classification:
  assumes "adfuller L s ''AIC'' = Inr r"
  shows "(\<exists>verdict. stationarity L s =
             [Subheader ''Stationarity Test (ADF)'', WriteValue ''ADF Statistic:'' (adfstat r),
              WriteValue ''p-value:'' (pvalue r), verdict]
           \<and> (verdict = Success ''Series is likely stationary''
                \<or> verdict = Warning ''Series is not stationary''))
    \<and> (\<forall>q. pvalue r = Fin q \<longrightarrow>
          (Success ''Series is likely stationary'' \<in> set (stationarity L s)
             \<longleftrightarrow> q < 3602879701896397 / 72057594037927936)
        \<and> (Warning ''Series is not stationary'' \<in> set (stationarity L s)
             \<longleftrightarrow> \<not> q < 3602879701896397 / 72057594037927936))
    \<and> (pvalue r = Fin (3602879701896397 / 72057594037927936) \<longrightarrow>
          Warning ''Series is not stationary'' \<in> set (stationarity L s)
        \<and> Success ''Series is likely stationary'' \<notin> set (stationarity L s))
    \<and> (pvalue r = NaN \<or> pvalue r = PosInf \<longrightarrow>
          Warning ''Series is not stationary'' \<in> set (stationarity L s)
        \<and> Success ''Series is likely stationary'' \<notin> set (stationarity L s))
    \<and> (pvalue r = NegInf \<longrightarrow>
          Success ''Series is likely stationary'' \<in> set (stationarity L s)
        \<and> Warning ''Series is not stationary'' \<notin> set (stationarity L s))"
  using assms by (auto simp: stationarity_def p_threshold_def)

text \<open>
  A p-value of a hundredth is labelled stationary; a p-value equal to the double
  \<^verbatim>\<open>0.05\<close> is labelled non-stationary.
\<close>

theorem C2_witness:
  "adfuller (demo_lib demo_stationary) series_four ''AIC'' = Inr demo_stationary
   \<and> pvalue demo_stationary = Fin (1 / 100)
   \<and> (1 / 100 :: rat) < 3602879701896397 / 72057594037927936
   \<and> Success ''Series is likely stationary'' \<in> set (stationarity (demo_lib demo_stationary) series_four)
   \<and> Warning ''Series is not stationary'' \<notin> set (stationarity (demo_lib demo_stationary) series_four)
   \<and> adfuller (demo_lib demo_result) series_four ''AIC'' = Inr demo_result
   \<and> pvalue demo_result = Fin (3602879701896397 / 72057594037927936)
   \<and> Warning ''Series is not stationary'' \<in> set (stationarity (demo_lib demo_result) series_four)
   \<and> Success ''Series is likely stationary'' \<notin> set (stationarity (demo_lib demo_result) series_four)"
proof -
  have a1: "adfuller (demo_lib demo_stationary) series_four ''AIC'' = Inr demo_stationary"
    by (simp add: demo_adfuller_def series_four_def)
  have p1: "pvalue demo_stationary = Fin (1 / 100)"
    by (simp add: demo_stationary_def)
  have lt: "(1 / 100 :: rat) < 3602879701896397 / 72057594037927936"
    by simp
  have a2: "adfuller (demo_lib demo_result) series_four ''AIC'' = Inr demo_result"
    by (simp add: demo_adfuller_def series_four_def)
  have p2: "pvalue demo_result = Fin (3602879701896397 / 72057594037927936)"
    by (simp add: demo_result_def)
  from C2_classification[OF a1] p1 lt
  have s1: "Success ''Series is likely stationary'' \<in> set (stationarity (demo_lib demo_stationary) series_four)"
    and s2: "Warning ''Series is not stationary'' \<notin> set (stationarity (demo_lib demo_stationary) series_four)"
    by blast+
  from C2_classification[OF a2] p2
  have s3: "Warning ''Series is not stationary'' \<in> set (stationarity (demo_lib demo_result) series_four)"
    and s4: "Success ''Series is likely stationary'' \<notin> set (stationarity (demo_lib demo_result) series_four)"
    by blast+
  from a1 p1 lt s1 s2 a2 p2 s3 s4 show ?thesis
    by (intro conjI)
qed

section \<open>Analyzers\<close>

text \<open>
  Claim C6, amended. Once a series is selected, the run depends on the call
  \<^verbatim>\<open>series.plot(ax=ax)\<close> of line 37, which no \<^verbatim>\<open>try\<close> encloses. When that call raises,
  the run ends there with the exception uncaught and nothing of the three analyzers is
  rendered. When it returns, the run ends without an uncaught exception and renders the
  chart followed by the three analyzers in order, each of them whole: a failure of the ADF
  test, of either correlation plot, or of the decomposition or its component plots is
  replaced by the analyzer's subheader and its error message, and what one analyzer renders
  does not change with the library calls of the others.
\<close>

theorem C6_analyzers_isolated:
  assumes "read_csv L bytes = Inr df" and "clean L df = Inr ydf"
    and "selectbox (columns ydf) choice = Some col"
    and "select_series L ydf (Some col) = Inr s"
  shows "(\<forall>e. series_plot L s None None new_axes = Inl e \<longrightarrow>
          script L (Some bytes) choice = \<lparr>rendered = page_head df ydf, uncaught = Some e\<rparr>)
    \<and> (\<forall>ax. series_plot L s None None new_axes = Inr ax \<longrightarrow>
          uncaught (script L (Some bytes) choice) = None
        \<and> rendered (script L (Some bytes) choice) =
            page_head df ydf @
            [Pyplot \<lparr>figsize = (10, 4), sharex = False, tight = False,
                     panels = [ax\<lparr>title := col @ '' (1901'' @ en_dash @ ''2021)'',
                                  xlabel := ''Year'', ylabel := ''Value''\<rparr>]\<rparr>] @
            stationarity L s @ correlation L s @ decomposition_panel L s)
    \<and> (\<forall>e. adfuller L s ''AIC'' = Inl e \<longrightarrow>
          stationarity L s =
            [Subheader ''Stationarity Test (ADF)'', Error (''ADF test failed: '' @ message e)])
    \<and> (\<forall>e. plot_acf L s new_axes = Inl e
             \<or> (\<exists>a. plot_acf L s new_axes = Inr a \<and> plot_pacf L s new_axes = Inl e) \<longrightarrow>
          correlation L s =
            [Subheader ''Autocorrelation and Partial Autocorrelation'',
             Error (''ACF/PACF plotting failed: '' @ message e)])
    \<and> (\<forall>e. seasonal_decompose L s ''additive'' 10 = Inl e
             \<or> (\<exists>d. seasonal_decompose L s ''additive'' 10 = Inr d \<and> component_plots L d = Inl e) \<longrightarrow>
          decomposition_panel L s =
            [Subheader ''Decomposition of Time Series'',
             Error (''Decomposition failed: '' @ message e)])
    \<and> stationarity (L\<lparr>series_plot := sp, plot_acf := pa, plot_pacf := pp, seasonal_decompose := sd\<rparr>) s
        = stationarity L s
    \<and> correlation (L\<lparr>series_plot := sp, adfuller := ad, seasonal_decompose := sd\<rparr>) s
        = correlation L s
    \<and> decomposition_panel (L\<lparr>adfuller := ad, plot_acf := pa, plot_pacf := pp\<rparr>) s
        = decomposition_panel L s"
proof -
  have 1: "\<forall>e. series_plot L s None None new_axes = Inl e \<longrightarrow>
          script L (Some bytes) choice = \<lparr>rendered = page_head df ydf, uncaught = Some e\<rparr>"
    using script_chart_fails[OF assms] by blast
  have 2: "\<forall>ax. series_plot L s None None new_axes = Inr ax \<longrightarrow>
          uncaught (script L (Some bytes) choice) = None
        \<and> rendered (script L (Some bytes) choice) =
            page_head df ydf @
            [Pyplot \<lparr>figsize = (10, 4), sharex = False, tight = False,
                     panels = [ax\<lparr>title := col @ '' (1901'' @ en_dash @ ''2021)'',
                                  xlabel := ''Year'', ylabel := ''Value''\<rparr>]\<rparr>] @
            stationarity L s @ correlation L s @ decomposition_panel L s"
    using script_chart_drawn[OF assms] by simp
  have 3: "\<forall>e. adfuller L s ''AIC'' = Inl e \<longrightarrow>
          stationarity L s =
            [Subheader ''Stationarity Test (ADF)'', Error (''ADF test failed: '' @ message e)]"
    by (simp add: stationarity_def)
  have 4: "\<forall>e. plot_acf L s new_axes = Inl e
             \<or> (\<exists>a. plot_acf L s new_axes = Inr a \<and> plot_pacf L s new_axes = Inl e) \<longrightarrow>
          correlation L s =
            [Subheader ''Autocorrelation and Partial Autocorrelation'',
             Error (''ACF/PACF plotting failed: '' @ message e)]"
    by (auto simp: correlation_def)
  have 5: "\<forall>e. seasonal_decompose L s ''additive'' 10 = Inl e
             \<or> (\<exists>d. seasonal_decompose L s ''additive'' 10 = Inr d \<and> component_plots L d = Inl e) \<longrightarrow>
          decomposition_panel L s =
            [Subheader ''Decomposition of Time Series'',
             Error (''Decomposition failed: '' @ message e)]"
    by (auto simp: decomposition_panel_def)
  have 6: "stationarity (L\<lparr>series_plot := sp, plot_acf := pa, plot_pacf := pp, seasonal_decompose := sd\<rparr>) s
        = stationarity L s"
    by (simp add: stationarity_def)
  have 7: "correlation (L\<lparr>series_plot := sp, adfuller := ad, seasonal_decompose := sd\<rparr>) s
        = correlation L s"
    by (simp add: correlation_def split: sum.splits)
  have 8: "decomposition_panel (L\<lparr>adfuller := ad, plot_acf := pa, plot_pacf := pp\<rparr>) s
        = decomposition_panel L s"
    by (simp add: decomposition_panel_def component_plots_def split: sum.splits)
  from 1 2 3 4 5 6 7 8 show ?thesis
    by (intro conjI)
qed

text \<open>
  The claim as stated, for every selected series, fails on an empty one: a column of words
  gives a series with no value, the plot of line 37 raises, and the run ends with that
  exception uncaught, no analyzer run and no message reported.
\<close>

theorem C6_counterexample:
  "select_series (demo_lib demo_result) ydf_text (Some ''TEMP'') = Inr []
   \<and> script (demo_lib demo_result) (Some csv_text) 0 =
       \<lparr>rendered = page_head df_text ydf_text,
        uncaught = Some (Exception ''zero-size array to reduction operation fmin which has no identity'')\<rparr>
   \<and> reported (rendered (script (demo_lib demo_result) (Some csv_text) 0)) = []
   \<and> Subheader ''Stationarity Test (ADF)'' \<notin> set (rendered (script (demo_lib demo_result) (Some csv_text) 0))"
proof -
  have run: "script (demo_lib demo_result) (Some csv_text) 0 =
       \<lparr>rendered = page_head df_text ydf_text,
        uncaught = Some (Exception ''zero-size array to reduction operation fmin which has no identity'')\<rparr>"
    using demo_reach_text demo_plot_empty by (rule script_chart_fails)
  show ?thesis
    unfolding run by (simp add: demo_reach_text page_head_def preamble_def)
qed

text \<open>
  The upload of five rows, whose series has two values: the ADF test and the decomposition
  fail, both failures are reported, the correlation plots are drawn, and the run ends
  normally. The upload of words ends at the chart.
\<close>

theorem C6_witness:
  "uncaught (script (demo_lib demo_result) (Some csv_five) 0) = None
   \<and> stationarity (demo_lib demo_result) series_five =
       [Subheader ''Stationarity Test (ADF)'',
        Error ''ADF test failed: sample size is too short to use selected regression component'']
   \<and> decomposition_panel (demo_lib demo_result) series_five =
       [Subheader ''Decomposition of Time Series'',
        Error ''Decomposition failed: x must have 2 complete cycles'']
   \<and> reported (rendered (script (demo_lib demo_result) (Some csv_five) 0)) =
       [''ADF test failed: sample size is too short to use selected regression component'',
        ''Decomposition failed: x must have 2 complete cycles'']
   \<and> script (demo_lib demo_result) (Some csv_text) 0 =
       \<lparr>rendered = page_head df_text ydf_text,
        uncaught = Some (Exception ''zero-size array to reduction operation fmin which has no identity'')\<rparr>"
proof -
  let ?D = "demo_lib demo_result"
  note five = C6_analyzers_isolated[OF demo_reach_five demo_selectbox_five(1) demo_select_five]
  note txt0 = C6_analyzers_isolated[OF demo_reach_text]
  have a: "adfuller ?D series_five ''AIC'' =
      Inl (Exception ''sample size is too short to use selected regression component'')"
    by (simp add: demo_adfuller_def series_five_def)
  have c: "seasonal_decompose ?D series_five ''additive'' 10 = Inl (Exception ''x must have 2 complete cycles'')"
    by (simp add: demo_seasonal_decompose_def series_five_def)
  from five demo_plot_five have 1: "uncaught (script ?D (Some csv_five) 0) = None"
    by blast
  from five demo_plot_five have r: "rendered (script ?D (Some csv_five) 0) =
       page_head df_five ydf_five @
       [Pyplot \<lparr>figsize = (10, 4), sharex = False, tight = False,
                panels = [\<lparr>artists = [series_five], title = [], xlabel = [], ylabel = []\<rparr>
                            \<lparr>title := ''TEMP'' @ '' (1901'' @ en_dash @ ''2021)'',
                             xlabel := ''Year'', ylabel := ''Value''\<rparr>]\<rparr>] @
       stationarity ?D series_five @ correlation ?D series_five @ decomposition_panel ?D series_five"
    by blast
  from five a have 2: "stationarity ?D series_five = [Subheader ''Stationarity Test (ADF)'',
       Error (''ADF test failed: '' @
         message (Exception ''sample size is too short to use selected regression component''))]"
    by blast
  from five c have 3: "decomposition_panel ?D series_five = [Subheader ''Decomposition of Time Series'',
       Error (''Decomposition failed: '' @ message (Exception ''x must have 2 complete cycles''))]"
    by blast
  have k: "reported (correlation ?D series_five) = []"
    by (simp add: correlation_def demo_plot_acf_def demo_plot_pacf_def series_five_def)
  have app: "\<And>xs ys :: series element list. reported (xs @ ys) = reported xs @ reported ys"
  proof -
    fix xs ys :: "series element list"
    show "reported (xs @ ys) = reported xs @ reported ys"
      by (induction xs rule: reported.induct) simp_all
  qed
  have 4: "reported (rendered (script ?D (Some csv_five) 0)) =
       [''ADF test failed: sample size is too short to use selected regression component'',
        ''Decomposition failed: x must have 2 complete cycles'']"
    unfolding r by (simp add: app k 2 3 page_head_def preamble_def)
  from txt0 demo_plot_empty have 5: "script ?D (Some csv_text) 0 =
       \<lparr>rendered = page_head df_text ydf_text,
        uncaught = Some (Exception ''zero-size array to reduction operation fmin which has no identity'')\<rparr>"
    by blast
  from 1 2 3 4 5 show ?thesis
    by simp
qed

text \<open>
  Claim C8, amended. Let the decomposition reject every series shorter than two periods, and
  let the selected series hold fewer than 20 values. When the plot of line 37 returns, the
  decomposition fails, the failure is caught and reported as
  \<^verbatim>\<open>Decomposition failed: ...\<close>, the chart stays rendered before it, and the run ends
  without an uncaught exception. When the plot of line 37 raises, the run ends there, with
  neither chart nor decomposition block.
\<close>

theorem C8_short_series:
  assumes "two_cycles L"
    and "read_csv L bytes = Inr df" and "clean L df = Inr ydf"
    and "selectbox (columns ydf) choice = Some col"
    and "select_series L ydf (Some col) = Inr s"
    and "length s < 20"
  shows "(\<forall>e. series_plot L s None None new_axes = Inl e \<longrightarrow>
          script L (Some bytes) choice = \<lparr>rendered = page_head df ydf, uncaught = Some e\<rparr>)
    \<and> (\<forall>ax. series_plot L s None None new_axes = Inr ax \<longrightarrow>
          (\<exists>e. seasonal_decompose L s ''additive'' 10 = Inl e
             \<and> decomposition_panel L s =
                 [Subheader ''Decomposition of Time Series'',
                  Error (''Decomposition failed: '' @ message e)]
             \<and> rendered (script L (Some bytes) choice) =
                 page_head df ydf @
                 [Pyplot \<lparr>figsize = (10, 4), sharex = False, tight = False,
                          panels = [ax\<lparr>title := col @ '' (1901'' @ en_dash @ ''2021)'',
                                       xlabel := ''Year'', ylabel := ''Value''\<rparr>]\<rparr>] @
                 stationarity L s @ correlation L s @
                 [Subheader ''Decomposition of Time Series'',
                  Error (''Decomposition failed: '' @ message e)]
             \<and> uncaught (script L (Some bytes) choice) = None))"
proof -
  note reach = assms(2-5)
  from assms(1,6) obtain e where e: "seasonal_decompose L s ''additive'' 10 = Inl e"
    unfolding two_cycles_def by force
  have panel: "decomposition_panel L s =
      [Subheader ''Decomposition of Time Series'', Error (''Decomposition failed: '' @ message e)]"
    using e by (simp add: decomposition_panel_def)
  have 1: "\<forall>e. series_plot L s None None new_axes = Inl e \<longrightarrow>
          script L (Some bytes) choice = \<lparr>rendered = page_head df ydf, uncaught = Some e\<rparr>"
    using script_chart_fails[OF reach] by blast
  have 2: "\<forall>ax. series_plot L s None None new_axes = Inr ax \<longrightarrow>
          (\<exists>e. seasonal_decompose L s ''additive'' 10 = Inl e
             \<and> decomposition_panel L s =
                 [Subheader ''Decomposition of Time Series'',
                  Error (''Decomposition failed: '' @ message e)]
             \<and> rendered (script L (Some bytes) choice) =
                 page_head df ydf @
                 [Pyplot \<lparr>figsize = (10, 4), sharex = False, tight = False,
                          panels = [ax\<lparr>title := col @ '' (1901'' @ en_dash @ ''2021)'',
                                       xlabel := ''Year'', ylabel := ''Value''\<rparr>]\<rparr>] @
                 stationarity L s @ correlation L s @
                 [Subheader ''Decomposition of Time Series'',
                  Error (''Decomposition failed: '' @ message e)]
             \<and> uncaught (script L (Some bytes) choice) = None)"
  proof (intro allI impI)
    fix ax assume ax: "series_plot L s None None new_axes = Inr ax"
    note run = script_chart_drawn[OF reach ax]
    show "\<exists>e. seasonal_decompose L s ''additive'' 10 = Inl e
             \<and> decomposition_panel L s =
                 [Subheader ''Decomposition of Time Series'',
                  Error (''Decomposition failed: '' @ message e)]
             \<and> rendered (script L (Some bytes) choice) =
                 page_head df ydf @
                 [Pyplot \<lparr>figsize = (10, 4), sharex = False, tight = False,
                          panels = [ax\<lparr>title := col @ '' (1901'' @ en_dash @ ''2021)'',
                                       xlabel := ''Year'', ylabel := ''Value''\<rparr>]\<rparr>] @
                 stationarity L s @ correlation L s @
                 [Subheader ''Decomposition of Time Series'',
                  Error (''Decomposition failed: '' @ message e)]
             \<and> uncaught (script L (Some bytes) choice) = None"
      using e panel run by simp
  qed
  from 1 2 show ?thesis
    by (intro conjI)
qed

text \<open>
  The claim as stated, for every series of fewer than 20 values, fails on the empty series
  of the column \<^verbatim>\<open>NOTE\<close>: no chart is rendered, no decomposition block either, and the
  exception of the plot is uncaught.
\<close>

theorem C8_counterexample:
  "select_series (demo_lib demo_result) ydf_five (Some ''NOTE'') = Inr []
   \<and> length ([] :: series) < 20
   \<and> script (demo_lib demo_result) (Some csv_five) 1 =
       \<lparr>rendered = page_head df_five ydf_five,
        uncaught = Some (Exception ''zero-size array to reduction operation fmin which has no identity'')\<rparr>
   \<and> (\<forall>fig. Pyplot fig \<notin> set (rendered (script (demo_lib demo_result) (Some csv_five) 1)))
   \<and> Subheader ''Decomposition of Time Series''
        \<notin> set (rendered (script (demo_lib demo_result) (Some csv_five) 1))
   \<and> reported (rendered (script (demo_lib demo_result) (Some csv_five) 1)) = []"
proof -
  have run: "script (demo_lib demo_result) (Some csv_five) 1 =
       \<lparr>rendered = page_head df_five ydf_five,
        uncaught = Some (Exception ''zero-size array to reduction operation fmin which has no identity'')\<rparr>"
    using demo_reach_five demo_selectbox_five(2) demo_select_note demo_plot_empty
    by (rule script_chart_fails)
  show ?thesis
    unfolding run by (simp add: demo_select_note page_head_def preamble_def)
qed

text \<open>
  The series of two values of the upload of five rows: the chart is rendered, and the
  decomposition reports that two complete cycles are missing.
\<close>

theorem C8_witness:
  "two_cycles (demo_lib demo_result)
   \<and> length series_five < 20
   \<and> decomposition_panel (demo_lib demo_result) series_five =
       [Subheader ''Decomposition of Time Series'',
        Error ''Decomposition failed: x must have 2 complete cycles'']
   \<and> uncaught (script (demo_lib demo_result) (Some csv_five) 0) = None
   \<and> (\<exists>fig. Pyplot fig \<in> set (rendered (script (demo_lib demo_result) (Some csv_five) 0)))"
proof -
  let ?D = "demo_lib demo_result"
  have len: "length series_five < 20"
    by (simp add: series_five_def)
  note five = C8_short_series[OF demo_two_cycles demo_reach_five demo_selectbox_five(1)
      demo_select_five len]
  have c: "seasonal_decompose ?D series_five ''additive'' 10 = Inl (Exception ''x must have 2 complete cycles'')"
    by (simp add: demo_seasonal_decompose_def series_five_def)
  from five demo_plot_five obtain e where
    e: "seasonal_decompose ?D series_five ''additive'' 10 = Inl e"
    and p: "decomposition_panel ?D series_five =
       [Subheader ''Decomposition of Time Series'', Error (''Decomposition failed: '' @ message e)]"
    and r: "rendered (script ?D (Some csv_five) 0) =
       page_head df_five ydf_five @
       [Pyplot \<lparr>figsize = (10, 4), sharex = False, tight = False,
                panels = [\<lparr>artists = [series_five], title = [], xlabel = [], ylabel = []\<rparr>
                            \<lparr>title := ''TEMP'' @ '' (1901'' @ en_dash @ ''2021)'',
                             xlabel := ''Year'', ylabel := ''Value''\<rparr>]\<rparr>] @
       stationarity ?D series_five @ correlation ?D series_five @
       [Subheader ''Decomposition of Time Series'', Error (''Decomposition failed: '' @ message e)]"
    and u: "uncaught (script ?D (Some csv_five) 0) = None"
    by blast
  from e c have e': "e = Exception ''x must have 2 complete cycles''"
    by simp
  have fig: "\<exists>fig. Pyplot fig \<in> set (rendered (script ?D (Some csv_five) 0))"
    unfolding r by auto
  from demo_two_cycles len p u fig show ?thesis
    unfolding e' by simp
qed

end
